theory Spec2Isabelle
  imports Complex_Main "HOL-Library.Multiset"
begin

section \<open>Tie-aware ranking and cross-source aggregation (app/api/comprehensive.py)\<close>

subsection \<open>Result rows handed to the ranking functions\<close>

text \<open>
  The rows are Python dicts.  The ranking code reads two things from a row: the entry
  \<open>"company_name"\<close> and one integer entry through \<open>item.get(mentions_key, 0)\<close>.  A row is
  therefore a name together with its integer-valued entries, keyed by their dict key.
\<close>

record item =
  company_name :: string
  int_fields :: "string \<rightharpoonup> int"

definition get_or_zero :: "item \<Rightarrow> string \<Rightarrow> int" where
  \<comment> \<open>\<open>item.get(mentions_key, 0)\<close>\<close>
  "get_or_zero it mentions_key =
     (case int_fields it mentions_key of None \<Rightarrow> 0 | Some v \<Rightarrow> v)"

record rank_info =
  rank :: int
  mentions :: int

subsection \<open>calculate_proper_ranking\<close>

text \<open>The inner loop: \<open>rank\<close> starts at 1 and grows by one for every row with more mentions.\<close>

primrec count_higher :: "string \<Rightarrow> int \<Rightarrow> item list \<Rightarrow> int \<Rightarrow> int" where
  "count_higher mentions_key m [] r = r"
| "count_higher mentions_key m (other_item # rest) r =
     count_higher mentions_key m rest
       (if get_or_zero other_item mentions_key > m then r + 1 else r)"

text \<open>The outer loop writes \<open>rank_map[company_name]\<close>; a later row with the same name overwrites.\<close>

primrec proper_ranking_loop ::
  "item list \<Rightarrow> string \<Rightarrow> item list \<Rightarrow> (string \<rightharpoonup> rank_info) \<Rightarrow> (string \<rightharpoonup> rank_info)" where
  "proper_ranking_loop data mentions_key [] rank_map = rank_map"
| "proper_ranking_loop data mentions_key (it # rest) rank_map =
     proper_ranking_loop data mentions_key rest
       (rank_map(company_name it \<mapsto>
          \<lparr>rank = count_higher mentions_key (get_or_zero it mentions_key) data 1,
           mentions = get_or_zero it mentions_key\<rparr>))"

definition calculate_proper_ranking :: "item list \<Rightarrow> string \<Rightarrow> (string \<rightharpoonup> rank_info)" where
  "calculate_proper_ranking data mentions_key =
     proper_ranking_loop data mentions_key data Map.empty"

subsection \<open>calculate_comprehensive_ranking\<close>

record scored =
  entity :: string
  gdelt_mentions :: int
  gdelt_rank :: int
  newsapi_mentions :: int
  newsapi_rank :: int
  combined_rank_score :: int

record ranked = scored +
  final_rank :: int

text \<open>
  \<open>all_companies\<close> is a Python \<open>set\<close> of names filled from the two lists; the loop over it
  visits every member once, in an order the language does not fix.  The order is a
  parameter \<open>iter\<close>: given the names in insertion order it returns the order of the visit.
\<close>

definition set_iteration :: "(string list \<Rightarrow> string list) \<Rightarrow> bool" where
  "set_iteration iter \<longleftrightarrow> (\<forall>xs. distinct (iter xs) \<and> set (iter xs) = set xs)"

definition score_company ::
  "item list \<Rightarrow> item list \<Rightarrow> (string \<rightharpoonup> rank_info) \<Rightarrow> (string \<rightharpoonup> rank_info) \<Rightarrow> string \<Rightarrow> scored" where
  "score_company gdelt_data newsapi_data gdelt_rank_map newsapi_rank_map name =
     (let gdelt_info = gdelt_rank_map name;
          newsapi_info = newsapi_rank_map name;
          g_rank = (case gdelt_info of Some i \<Rightarrow> rank i | None \<Rightarrow> int (length gdelt_data) + 1);
          n_rank = (case newsapi_info of Some i \<Rightarrow> rank i | None \<Rightarrow> int (length newsapi_data) + 1)
      in \<lparr>entity = name,
          gdelt_mentions = (case gdelt_info of Some i \<Rightarrow> mentions i | None \<Rightarrow> 0),
          gdelt_rank = g_rank,
          newsapi_mentions = (case newsapi_info of Some i \<Rightarrow> mentions i | None \<Rightarrow> 0),
          newsapi_rank = n_rank,
          combined_rank_score = g_rank + n_rank\<rparr>)"

primrec count_lower :: "int \<Rightarrow> scored list \<Rightarrow> int \<Rightarrow> int" where
  "count_lower score [] r = r"
| "count_lower score (other_item # rest) r =
     count_lower score rest (if combined_rank_score other_item < score then r + 1 else r)"

definition with_final_rank :: "scored list \<Rightarrow> scored \<Rightarrow> ranked" where
  "with_final_rank comprehensive_ranking it =
     \<lparr>entity = entity it,
      gdelt_mentions = gdelt_mentions it,
      gdelt_rank = gdelt_rank it,
      newsapi_mentions = newsapi_mentions it,
      newsapi_rank = newsapi_rank it,
      combined_rank_score = combined_rank_score it,
      final_rank = count_lower (combined_rank_score it) comprehensive_ranking 1\<rparr>"

definition scored_rows :: "(string list \<Rightarrow> string list) \<Rightarrow> item list \<Rightarrow> item list \<Rightarrow> scored list" where
  \<comment> \<open>the list \<open>comprehensive_ranking\<close> after \<open>.sort(key = combined_rank_score)\<close>, a stable sort\<close>
  "scored_rows iter gdelt_data newsapi_data =
     (let gdelt_rank_map = calculate_proper_ranking gdelt_data ''current_month_mentions'';
          newsapi_rank_map = calculate_proper_ranking newsapi_data ''current_mentions'';
          all_companies = iter (map company_name gdelt_data @ map company_name newsapi_data)
      in sort_key combined_rank_score
           (map (score_company gdelt_data newsapi_data gdelt_rank_map newsapi_rank_map)
                all_companies))"

definition calculate_comprehensive_ranking ::
  "(string list \<Rightarrow> string list) \<Rightarrow> item list \<Rightarrow> item list \<Rightarrow> ranked list" where
  "calculate_comprehensive_ranking iter gdelt_data newsapi_data =
     (let comprehensive_ranking = scored_rows iter gdelt_data newsapi_data
      in map (with_final_rank comprehensive_ranking) comprehensive_ranking)"

subsection \<open>Rows as the two data sources build them\<close>

text \<open>
  \<open>get_gdelt_ranking_data\<close> appends \<open>{"company_name": .., "current_month_mentions": ..}\<close>;
  \<open>get_newsapi_mom_analysis\<close> appends \<open>{"company_name": .., "current_mentions": ..,
  "previous_mentions": ..}\<close> (entries that the ranking never reads are left out).
\<close>

definition gdelt_row :: "string \<Rightarrow> int \<Rightarrow> item" where
  "gdelt_row name m = \<lparr>company_name = name, int_fields = [''current_month_mentions'' \<mapsto> m]\<rparr>"

definition newsapi_row :: "string \<Rightarrow> int \<Rightarrow> int \<Rightarrow> item" where
  "newsapi_row name cur prev =
     \<lparr>company_name = name,
      int_fields = [''current_mentions'' \<mapsto> cur, ''previous_mentions'' \<mapsto> prev]\<rparr>"

section \<open>Python numbers\<close>

subsection \<open>Floats\<close>

text \<open>
  A Python \<open>float\<close> is an IEEE 754 binary64 number.  It is modelled by the rational it
  holds; \<open>fl\<close> rounds a rational to the nearest such number, ties going to the even
  significand (53 bits, least exponent \<open>-1074\<close>).  Infinities, NaN and the sign of zero
  are not modelled: magnitudes from \<open>2^1024\<close> on lie outside the model.
\<close>

definition round_half_even :: "rat \<Rightarrow> int" where
  "round_half_even x =
     (let f = \<lfloor>x\<rfloor>; d = x - of_int f
      in if d < 1 / 2 then f else if 1 / 2 < d then f + 1 else if even f then f else f + 1)"

function digit_count :: "int \<Rightarrow> int \<Rightarrow> int" where
  \<comment> \<open>the number of digits of \<open>n\<close> in base \<open>b\<close>\<close>
  "digit_count b n = (if n \<le> 0 \<or> b \<le> 1 then 0 else 1 + digit_count b (n div b))"
  by pat_completeness auto
termination
  by (relation "measure (\<lambda>(b, n). nat n)") (auto simp: pos_imp_zdiv_neg_iff intro: int_div_less_self)

declare digit_count.simps [simp del]

definition ilog :: "int \<Rightarrow> rat \<Rightarrow> int" where
  \<comment> \<open>for \<open>x > 0\<close> and \<open>b > 1\<close>: the \<open>k\<close> with \<open>b^k \<le> x < b^(k+1)\<close>\<close>
  "ilog b x =
     (let (n, d) = quotient_of x;
          k = digit_count b n - digit_count b d
      in if power_int (of_int b) k \<le> x then k else k - 1)"

definition fl :: "rat \<Rightarrow> rat" where
  "fl x =
     (if x = 0 then 0
      else let e = max (ilog 2 \<bar>x\<bar> - 52) (- 1074);
               m = round_half_even (\<bar>x\<bar> / power_int 2 e)
           in sgn x * of_int m * power_int 2 e)"

definition int_truediv :: "int \<Rightarrow> int \<Rightarrow> rat" where
  \<comment> \<open>\<open>a / b\<close> on two ints, for \<open>b \<noteq> 0\<close>: the quotient, correctly rounded\<close>
  "int_truediv a b = fl (of_int a / of_int b)"

definition float_mul :: "rat \<Rightarrow> rat \<Rightarrow> rat" where
  "float_mul x y = fl (x * y)"



definition py_round :: "rat \<Rightarrow> nat \<Rightarrow> rat" where
  \<comment> \<open>\<open>round(x, ndigits)\<close>: the exact value of \<open>x\<close> goes to the nearest decimal with
      \<open>ndigits\<close> places, ties to the even digit, and that decimal to the nearest float\<close>
  "py_round x ndigits = fl (of_int (round_half_even (x * 10 ^ ndigits)) / 10 ^ ndigits)"

subsection \<open>Formatting and parsing\<close>

function show_nat :: "int \<Rightarrow> string" where
  \<comment> \<open>the decimal digits of a non-negative int\<close>
  "show_nat n = (if n < 10 then [char_of (48 + n)] else show_nat (n div 10) @ [char_of (48 + n mod 10)])"
  by pat_completeness auto
termination
  by (relation "measure nat") (auto intro: int_div_less_self)

declare show_nat.simps [simp del]

definition format_f1 :: "rat \<Rightarrow> string" where
  \<comment> \<open>\<open>f"{x:.1f}"\<close>: one decimal place, the exact value rounded with ties to even\<close>
  "format_f1 x =
     (let n = round_half_even (\<bar>x\<bar> * 10)
      in (if x < 0 then ''-'' else '''') @ show_nat (n div 10) @ ''.'' @ show_nat (n mod 10))"

text \<open>
  \<open>str(x)\<close> of a float prints the shortest decimal that reads back as \<open>x\<close>, the nearest
  to \<open>x\<close> among the shortest; 17 significant digits always suffice.
  \<open>float_str_value x\<close> is the number that this string denotes, which is what
  \<open>Decimal(str(x))\<close> holds.
\<close>

definition decimal_at :: "rat \<Rightarrow> nat \<Rightarrow> rat option" where
  \<comment> \<open>for \<open>x > 0\<close>: the decimal with at most \<open>n\<close> significant digits that reads back as \<open>x\<close>\<close>
  "decimal_at x n =
     (let s = power_int 10 (ilog 10 x - int n + 1);
          q = \<lfloor>x / s\<rfloor>;
          lo = of_int q * s;
          hi = lo + s
      in if fl lo = x \<and> fl hi = x
         then Some (if x - lo < hi - x then lo else if hi - x < x - lo then hi
                    else if even q then lo else hi)
         else if fl lo = x then Some lo
         else if fl hi = x then Some hi
         else None)"

fun first_decimal :: "rat \<Rightarrow> nat list \<Rightarrow> rat" where
  "first_decimal x [] = x"
| "first_decimal x (n # ns) = (case decimal_at x n of Some d \<Rightarrow> d | None \<Rightarrow> first_decimal x ns)"

definition float_str_value :: "rat \<Rightarrow> rat" where
  "float_str_value x = (if x = 0 then 0 else sgn x * first_decimal \<bar>x\<bar> [1..<18])"

definition quantize_half_up :: "rat \<Rightarrow> int" where
  \<comment> \<open>\<open>d.quantize(Decimal('0.1'), rounding=ROUND_HALF_UP)\<close>, counted in tenths:
      ties go away from zero\<close>
  "quantize_half_up d = (if d < 0 then - 1 else 1) * \<lfloor>\<bar>d\<bar> * 10 + 1 / 2\<rfloor>"

datatype error =
  ValueError
| TypeError
| InvalidOperation
| StorageFault
| HTTPException int

section \<open>Percentage change\<close>

subsection \<open>AnalysisService (app/services/analysis_service.py)\<close>

text \<open>
  \<open>_calculate_percentage_change\<close> returns a \<open>Decimal\<close>, modelled by its value.  The
  default decimal context has 28 digits: \<open>quantize\<close> raises \<open>InvalidOperation\<close> when the
  result would need more.  \<open>NewsAPIAnalysisService\<close> repeats both functions word for word.
\<close>

definition calculate_percentage_change :: "int \<Rightarrow> int \<Rightarrow> error + rat" where
  "calculate_percentage_change current_value previous_value =
     (if previous_value = 0
      then (if current_value = 0 then Inr 0 else Inr 999)
      else let change = float_mul (int_truediv (current_value - previous_value) previous_value) 100;
               tenths = quantize_half_up (float_str_value change)
           in if 10 ^ 28 \<le> \<bar>tenths\<bar> then Inl InvalidOperation else Inr (of_int tenths / 10))"

definition format_percentage_change :: "rat option \<Rightarrow> string" where
  "format_percentage_change percentage =
     (case percentage of
        None \<Rightarrow> ''N/A''
      | Some d \<Rightarrow>
          let val = fl d
          in if val > 0 then ''+'' @ format_f1 val @ ''%''
             else if val < 0 then format_f1 val @ ''%''
             else ''0.0%'')"

subsection \<open>The NewsAPI month-over-month paths\<close>

text \<open>
  \<open>NewsAPIRealDataService.get_newsapi_mom_analysis\<close> (newsapi_real_data_service.py) and the
  route \<open>/analysis/newsapi-mom\<close> (api/analysis.py) contain the same lines, which set
  \<open>change_percentage\<close> and \<open>formatted_change\<close> from the two counts.
\<close>

definition newsapi_change :: "int \<Rightarrow> int \<Rightarrow> rat \<times> string" where
  "newsapi_change current_mentions previous_mentions =
     (if previous_mentions = 0
      then (if current_mentions = 0 then (0, ''0.0%'') else (999, ''+999.0%''))
      else let change_percentage =
                 float_mul (int_truediv (current_mentions - previous_mentions) previous_mentions) 100
           in (change_percentage,
               if change_percentage > 0 then ''+'' @ format_f1 change_percentage @ ''%''
               else if change_percentage < 0 then format_f1 change_percentage @ ''%''
               else ''0.0%''))"

section \<open>Month keys\<close>

text \<open>
  Strings are ASCII.  \<open>py_int\<close> is \<open>int(s)\<close> on a string: surrounding whitespace is
  dropped, one sign is allowed, and the digits may be separated by single underscores;
  anything else raises \<open>ValueError\<close> (here \<open>None\<close>).  The limit that recent interpreters
  put on the number of digits is not modelled.
\<close>

definition is_space :: "char \<Rightarrow> bool" where
  "is_space c \<longleftrightarrow> c \<in> set [CHR 0x20, CHR 0x09, CHR 0x0A, CHR 0x0B, CHR 0x0C, CHR 0x0D,
                               CHR 0x1C, CHR 0x1D, CHR 0x1E, CHR 0x1F]"

definition strip :: "string \<Rightarrow> string" where
  "strip s = rev (dropWhile is_space (rev (dropWhile is_space s)))"

definition is_digit :: "char \<Rightarrow> bool" where
  "is_digit c \<longleftrightarrow> (48::nat) \<le> of_char c \<and> of_char c \<le> (57::nat)"

definition digit_value :: "char \<Rightarrow> int" where
  "digit_value c = of_char c - 48"

fun parse_digits :: "string \<Rightarrow> int \<Rightarrow> int option" where
  "parse_digits [] acc = Some acc"
| "parse_digits [c] acc = (if is_digit c then Some (acc * 10 + digit_value c) else None)"
| "parse_digits (c # d # ds) acc =
     (if is_digit c then parse_digits (d # ds) (acc * 10 + digit_value c)
      else if c = CHR ''_'' \<and> is_digit d then parse_digits ds (acc * 10 + digit_value d)
      else None)"

definition py_int :: "string \<Rightarrow> int option" where
  "py_int s =
     (let t = strip s;
          negative = (take 1 t = ''-'');
          body = (if take 1 t = ''-'' \<or> take 1 t = ''+'' then drop 1 t else t)
      in case body of
           [] \<Rightarrow> None
         | d # ds \<Rightarrow>
             if is_digit d
             then map_option (\<lambda>v. if negative then - v else v) (parse_digits ds (digit_value d))
             else None)"

fun split_on :: "char \<Rightarrow> string \<Rightarrow> string list" where
  \<comment> \<open>\<open>s.split(sep)\<close> for a separator of one character\<close>
  "split_on sep [] = [[]]"
| "split_on sep (c # cs) =
     (if c = sep then [] # split_on sep cs
      else (case split_on sep cs of w # ws \<Rightarrow> (c # w) # ws | [] \<Rightarrow> [[c]]))"

definition parse_year_month :: "string \<Rightarrow> error + int \<times> int" where
  \<comment> \<open>\<open>year, month = map(int, target_month.split("-"))\<close>: a string that is not an int, too
      few parts and too many parts all raise \<open>ValueError\<close>\<close>
  "parse_year_month target_month =
     (case map py_int (split_on CHR ''-'' target_month) of
        [Some y, Some m] \<Rightarrow> Inr (y, m)
      | _ \<Rightarrow> Inl ValueError)"

definition format_0d :: "nat \<Rightarrow> int \<Rightarrow> string" where
  \<comment> \<open>\<open>f"{n:0wd}"\<close>: zeros between the sign and the digits up to width \<open>w\<close>\<close>
  "format_0d w n =
     (let sign = (if n < 0 then ''-'' else ''''); ds = show_nat \<bar>n\<bar>
      in sign @ replicate (w - length sign - length ds) CHR ''0'' @ ds)"

definition format_year_month :: "int \<Rightarrow> int \<Rightarrow> string" where
  \<comment> \<open>\<open>f"{year:04d}-{month:02d}"\<close>\<close>
  "format_year_month y m = format_0d 4 y @ ''-'' @ format_0d 2 m"

definition previous_calendar_month :: "int \<times> int \<Rightarrow> int \<times> int" where
  "previous_calendar_month ym =
     (case ym of (y, m) \<Rightarrow> if m = 1 then (y - 1, 12) else (y, m - 1))"

section \<open>Storage\<close>

text \<open>
  The tables of app/models, with the columns that the analysis code reads or writes
  (\<open>id\<close> and the timestamps are left out).  Every statement sent to the database is
  appended to \<open>statements\<close>.  A statement may raise: \<open>faulty\<close> tells, from the number of
  statements sent before it, whether it does.
\<close>

record company_rec =
  company_id :: int
  cleaned_name :: string
  company_status :: string

record monthly_mention =
  mention_company_id :: int
  year_month :: string
  mention_count :: int
  data_source :: string

text \<open>
  \<open>MonthlyYoYAnalysis\<close> and \<open>MonthlyMoMAnalysis\<close> have the same columns but for the name of
  the previous count (\<open>previous_year_mentions\<close>, \<open>previous_month_mentions\<close>); the numeric
  column \<open>monthly_change_percentage\<close> may be null.
\<close>

record analysis_rec =
  analysis_company_id :: int
  analysis_month :: string
  current_month_mentions :: int
  previous_period_mentions :: int
  monthly_change_percentage :: "rat option"
  analysis_status :: string

datatype statement = Select string | Commit string

record database =
  companies :: "company_rec list"
  monthly_mentions :: "monthly_mention list"
  yoy_table :: "analysis_rec list"
  mom_table :: "analysis_rec list"
  statements :: "statement list"
  faulty :: "nat \<Rightarrow> bool"

type_synonym 'a action = "database \<Rightarrow> (error + 'a) \<times> database"

definition execute :: "statement \<Rightarrow> unit action" where
  "execute st db =
     (let db' = db\<lparr>statements := statements db @ [st]\<rparr>
      in if faulty db (length (statements db)) then (Inl StorageFault, db') else (Inr (), db'))"

definition result :: "'a \<Rightarrow> 'a action" where
  "result x db = (Inr x, db)"

definition raise :: "error \<Rightarrow> 'a action" where
  "raise e db = (Inl e, db)"

definition and_then :: "'a action \<Rightarrow> ('a \<Rightarrow> 'b action) \<Rightarrow> 'b action" where
  "and_then m f db = (case m db of (Inl e, db') \<Rightarrow> (Inl e, db') | (Inr x, db') \<Rightarrow> f x db')"

definition try_except :: "'a action \<Rightarrow> (error \<Rightarrow> 'a action) \<Rightarrow> 'a action" where
  \<comment> \<open>\<open>try: m  except Exception as e: h(e)\<close>\<close>
  "try_except m h db = (case m db of (Inl e, db') \<Rightarrow> h e db' | (Inr x, db') \<Rightarrow> (Inr x, db'))"

subsection \<open>Queries\<close>

definition active_companies :: "int list option \<Rightarrow> company_rec list action" where
  \<comment> \<open>\<open>db.query(Company).filter([Company.id.in_(company_ids),] Company.status == "active").all()\<close>;
      \<open>if company_ids\<close> is false for \<open>None\<close> and for the empty list\<close>
  "active_companies company_ids =
     and_then (execute (Select ''companies''))
       (\<lambda>_ db. (Inr (filter (\<lambda>c. company_status c = ''active'' \<and>
                               (case company_ids of
                                  None \<Rightarrow> True
                                | Some ids \<Rightarrow> ids = [] \<or> company_id c \<in> set ids))
                     (companies db)), db))"

definition first_mention :: "int \<Rightarrow> string \<Rightarrow> string list option \<Rightarrow> monthly_mention option action" where
  \<comment> \<open>\<open>db.query(MonthlyMention).filter(company_id == .., year_month == .. [, data_source in ..]).first()\<close>\<close>
  "first_mention cid month sources =
     and_then (execute (Select ''monthly_mentions''))
       (\<lambda>_ db. (Inr (find (\<lambda>r. mention_company_id r = cid \<and> year_month r = month \<and>
                             (case sources of None \<Rightarrow> True | Some ss \<Rightarrow> data_source r \<in> set ss))
                     (monthly_mentions db)), db))"

definition matches :: "int \<Rightarrow> string \<Rightarrow> analysis_rec \<Rightarrow> bool" where
  "matches cid month r \<longleftrightarrow> analysis_company_id r = cid \<and> analysis_month r = month"

fun replace_first :: "('a \<Rightarrow> bool) \<Rightarrow> 'a \<Rightarrow> 'a list \<Rightarrow> 'a list" where
  "replace_first P y [] = []"
| "replace_first P y (x # xs) = (if P x then y # xs else x # replace_first P y xs)"

definition upsert_yoy :: "analysis_rec \<Rightarrow> unit action" where
  \<comment> \<open>the row found by \<open>.first()\<close> is updated, or a new one is added; then \<open>db.commit()\<close>\<close>
  "upsert_yoy r =
     and_then (execute (Select ''monthly_yoy_analysis''))
       (\<lambda>_. and_then (execute (Commit ''monthly_yoy_analysis''))
          (\<lambda>_ db.
             (Inr (),
              db\<lparr>yoy_table :=
                   (if \<exists>x \<in> set (yoy_table db). matches (analysis_company_id r) (analysis_month r) x
                    then replace_first (matches (analysis_company_id r) (analysis_month r)) r (yoy_table db)
                    else yoy_table db @ [r])\<rparr>)))"

definition analyses_with_company ::
  "string \<Rightarrow> (database \<Rightarrow> analysis_rec list) \<Rightarrow> string \<Rightarrow> (company_rec \<Rightarrow> bool)
     \<Rightarrow> (analysis_rec \<times> company_rec) list action" where
  \<comment> \<open>\<open>db.query(Analysis).join(Company).filter(Analysis.analysis_month == month, ..).all()\<close>\<close>
  "analyses_with_company table_name table month keep =
     and_then (execute (Select table_name))
       (\<lambda>_ db. (Inr (concat (map (\<lambda>a. map (Pair a)
                                       (filter (\<lambda>c. company_id c = analysis_company_id a \<and> keep c)
                                          (companies db)))
                             (filter (\<lambda>a. analysis_month a = month) (table db)))), db))"

definition py_sort_desc :: "('a \<Rightarrow> 'k::linorder) \<Rightarrow> 'a list \<Rightarrow> 'a list" where
  \<comment> \<open>\<open>xs.sort(key=f, reverse=True)\<close>: stable, so equal keys keep their order\<close>
  "py_sort_desc f xs = rev (sort_key f (rev xs))"

section \<open>Period analysis\<close>

subsection \<open>AnalysisService: year over year (app/services/analysis_service.py)\<close>

record yoy_row =
  row_company_id :: int
  row_company_name :: string
  row_analysis_month :: string
  row_current_month_mentions :: int
  row_previous_mentions :: int
  row_monthly_change_percentage :: "rat option"
  row_formatted_change :: string
  row_status :: string

text \<open>
  A company whose computation raised is reported as
  \<open>{"company_id": .., "company_name": .., "status": "failed", "error": str(e)}\<close>.
\<close>

datatype company_result = Computed yoy_row | Failed int string error

definition found :: "'a option \<Rightarrow> bool" where
  \<comment> \<open>the truth value of what \<open>.first()\<close> returned: a row is true, \<open>None\<close> is false\<close>
  "found data = (case data of Some r \<Rightarrow> True | None \<Rightarrow> False)"

definition count_or_zero :: "monthly_mention option \<Rightarrow> int" where
  \<comment> \<open>\<open>data.mention_count if data else 0\<close>\<close>
  "count_or_zero data = (case data of Some r \<Rightarrow> mention_count r | None \<Rightarrow> 0)"

definition calculate_company_yoy :: "company_rec \<Rightarrow> string \<Rightarrow> string \<Rightarrow> yoy_row action" where
  "calculate_company_yoy company target_month previous_month =
     and_then (first_mention (company_id company) target_month None) (\<lambda>current_data.
     and_then (first_mention (company_id company) previous_month None) (\<lambda>previous_data.
       let current_mentions = count_or_zero current_data;
           previous_mentions = count_or_zero previous_data
       in case calculate_percentage_change current_mentions previous_mentions of
            Inl e \<Rightarrow> raise e
          | Inr change_percentage \<Rightarrow>
              and_then
                (upsert_yoy
                   \<lparr>analysis_company_id = company_id company,
                    analysis_month = target_month,
                    current_month_mentions = current_mentions,
                    previous_period_mentions = previous_mentions,
                    monthly_change_percentage = Some change_percentage,
                    analysis_status = ''success''\<rparr>)
                (\<lambda>_. result
                   \<lparr>row_company_id = company_id company,
                    row_company_name = cleaned_name company,
                    row_analysis_month = target_month,
                    row_current_month_mentions = current_mentions,
                    row_previous_mentions = previous_mentions,
                    row_monthly_change_percentage =
                      (if change_percentage = 0 then None else Some (fl change_percentage)),
                    row_formatted_change = format_percentage_change (Some change_percentage),
                    row_status = ''success''\<rparr>)))"

record analysis_summary =
  summary_target_month :: string
  summary_previous_month :: string
  total_companies :: int
  successful_analyses :: int
  failed_analyses :: int
  summary_results :: "company_result list"

fun analysis_loop ::
  "(company_rec \<Rightarrow> yoy_row action) \<Rightarrow> company_rec list \<Rightarrow> company_result list \<times> int \<times> int
     \<Rightarrow> (company_result list \<times> int \<times> int) action" where
  "analysis_loop body [] acc = result acc"
| "analysis_loop body (company # rest) (results, successful_count, failed_count) =
     and_then
       (try_except
          (and_then (body company) (\<lambda>r.
             result (results @ [Computed r],
                     if row_status r = ''success'' then successful_count + 1 else successful_count,
                     if row_status r = ''success'' then failed_count else failed_count + 1)))
          (\<lambda>e. result (results @ [Failed (company_id company) (cleaned_name company) e],
                        successful_count, failed_count + 1)))
       (analysis_loop body rest)"

definition calculate_monthly_yoy_analysis ::
  "int \<times> int \<Rightarrow> string option \<Rightarrow> int list option \<Rightarrow> analysis_summary action" where
  \<comment> \<open>the first argument is the year and month of \<open>datetime.now()\<close>\<close>
  "calculate_monthly_yoy_analysis now target_month company_ids =
     (let target_month =
            (case target_month of
               None \<Rightarrow> format_year_month (fst now) (snd now)
             | Some s \<Rightarrow> if s = [] then format_year_month (fst now) (snd now) else s)
      in case parse_year_month target_month of
           Inl e \<Rightarrow> raise ValueError
         | Inr (target_year, target_month_num) \<Rightarrow>
             let previous_month = format_year_month (target_year - 1) target_month_num
             in and_then (active_companies company_ids) (\<lambda>companies.
                and_then
                  (analysis_loop (\<lambda>c. calculate_company_yoy c target_month previous_month)
                     companies ([], 0, 0))
                  (\<lambda>(results, successful_count, failed_count).
                     result
                       \<lparr>summary_target_month = target_month,
                        summary_previous_month = previous_month,
                        total_companies = int (length companies),
                        successful_analyses = successful_count,
                        failed_analyses = failed_count,
                        summary_results = results\<rparr>)))"

subsection \<open>The route /analysis/newsapi-mom (app/api/analysis.py)\<close>

definition newsapi_mom_company :: "company_rec \<Rightarrow> string \<Rightarrow> string \<Rightarrow> yoy_row action" where
  "newsapi_mom_company company target_month previous_month =
     and_then (first_mention (company_id company) target_month (Some [''newsapi''])) (\<lambda>current_data.
     and_then (first_mention (company_id company) previous_month (Some [''newsapi''])) (\<lambda>previous_data.
       let current_mentions = count_or_zero current_data;
           previous_mentions = count_or_zero previous_data;
           change = newsapi_change current_mentions previous_mentions
       in result
            \<lparr>row_company_id = company_id company,
             row_company_name = cleaned_name company,
             row_analysis_month = target_month,
             row_current_month_mentions = current_mentions,
             row_previous_mentions = previous_mentions,
             row_monthly_change_percentage = Some (fst change),
             row_formatted_change = snd change,
             row_status = ''success''\<rparr>))"

definition route_newsapi_mom_analysis :: "string \<Rightarrow> int list option \<Rightarrow> analysis_summary action" where
  "route_newsapi_mom_analysis target_month company_ids =
     (case parse_year_month target_month of
        Inl e \<Rightarrow> raise (HTTPException 400)
      | Inr ym \<Rightarrow>
          let previous_month =
                format_year_month (fst (previous_calendar_month ym)) (snd (previous_calendar_month ym))
          in and_then (active_companies company_ids) (\<lambda>companies.
             and_then
               (analysis_loop (\<lambda>c. newsapi_mom_company c target_month previous_month)
                  companies ([], 0, 0))
               (\<lambda>(results, successful_count, failed_count).
                  result
                    \<lparr>summary_target_month = target_month,
                     summary_previous_month = previous_month,
                     total_companies = int (length companies),
                     successful_analyses = successful_count,
                     failed_analyses = failed_count,
                     summary_results = results\<rparr>)))"

subsection \<open>NewsAPIRealDataService.get_newsapi_mom_analysis (app/services/newsapi_real_data_service.py)\<close>

record newsapi_result =
  result_company_id :: int
  result_company_name :: string
  current_month :: string
  previous_month :: string
  current_mentions :: int
  previous_mentions :: int
  change_percentage :: rat
  formatted_change :: string
  status :: string

definition newsapi_company_result :: "company_rec \<Rightarrow> string \<Rightarrow> string \<Rightarrow> newsapi_result action" where
  "newsapi_company_result company target_month prev_month =
     and_then (first_mention (company_id company) target_month (Some [''newsapi''])) (\<lambda>current_data.
     and_then (first_mention (company_id company) prev_month (Some [''newsapi''])) (\<lambda>previous_data.
       let current = count_or_zero current_data;
           previous = count_or_zero previous_data;
           change = newsapi_change current previous
       in result
            \<lparr>result_company_id = company_id company,
             result_company_name = cleaned_name company,
             current_month = target_month,
             previous_month = prev_month,
             current_mentions = current,
             previous_mentions = previous,
             change_percentage = py_round (fst change) 1,
             formatted_change = snd change,
             status = (if found current_data \<or> found previous_data
                       then ''success'' else ''no_data'')\<rparr>))"

fun newsapi_loop ::
  "company_rec list \<Rightarrow> string \<Rightarrow> string \<Rightarrow> newsapi_result list \<Rightarrow> newsapi_result list action" where
  "newsapi_loop [] target_month prev_month results = result results"
| "newsapi_loop (company # rest) target_month prev_month results =
     and_then (newsapi_company_result company target_month prev_month)
       (\<lambda>r. newsapi_loop rest target_month prev_month (results @ [r]))"

record newsapi_analysis =
  newsapi_target_month :: string
  newsapi_previous_month :: string
  newsapi_total_companies :: int
  newsapi_results :: "newsapi_result list"

definition get_newsapi_mom_analysis :: "string \<Rightarrow> newsapi_analysis action" where
  "get_newsapi_mom_analysis target_month =
     (case parse_year_month target_month of
        Inl e \<Rightarrow> raise e
      | Inr ym \<Rightarrow>
          let prev_month =
                format_year_month (fst (previous_calendar_month ym)) (snd (previous_calendar_month ym))
          in and_then (active_companies None) (\<lambda>companies.
             and_then (newsapi_loop companies target_month prev_month []) (\<lambda>results.
               result
                 \<lparr>newsapi_target_month = target_month,
                  newsapi_previous_month = prev_month,
                  newsapi_total_companies = int (length results),
                  newsapi_results = py_sort_desc change_percentage results\<rparr>)))"

subsection \<open>Stored results: get_monthly_yoy_results and get_monthly_mom_results\<close>








section \<open>Combined ranking against the previous month (app/api/comprehensive.py)\<close>

definition as_item :: "newsapi_result \<Rightarrow> item" where
  \<comment> \<open>a result dict of \<open>get_newsapi_mom_analysis\<close>, as the ranking reads it\<close>
  "as_item r = newsapi_row (result_company_name r) (current_mentions r) (previous_mentions r)"

definition get_gdelt_ranking_data_fallback :: "string \<Rightarrow> item list action" where
  "get_gdelt_ranking_data_fallback target_month =
     and_then (active_companies None) (\<lambda>companies.
     and_then
       (fold (\<lambda>c acc.
                and_then acc (\<lambda>results.
                  try_except
                    (and_then (first_mention (company_id c) target_month
                                 (Some [''gdelt_doc'', ''gdelt_event'']))
                       (\<lambda>current_data.
                          result (results @ [gdelt_row (cleaned_name c) (count_or_zero current_data)])))
                    (\<lambda>e. result results)))
             companies (result []))
       (\<lambda>results. result (py_sort_desc (\<lambda>x. get_or_zero x ''current_month_mentions'') results)))"

definition get_gdelt_ranking_data :: "string \<Rightarrow> item list action" where
  "get_gdelt_ranking_data target_month =
     try_except
       (and_then
          (analyses_with_company ''monthly_mom_analysis'' mom_table target_month
             (\<lambda>c. company_status c = ''active''))
          (\<lambda>mom_analyses.
             result (py_sort_desc (\<lambda>x. get_or_zero x ''current_month_mentions'')
                       (map (\<lambda>(analysis, c). gdelt_row (cleaned_name c) (current_month_mentions analysis))
                          mom_analyses))))
       (\<lambda>e. get_gdelt_ranking_data_fallback target_month)"

record enhanced = ranked +
  previous_rank :: "int option"
  rank_change :: "int option"
  rank_change_direction :: "string option"

text \<open>
  The function returns either rows that carry the three additional entries, or, from the
  \<open>except\<close> branch, the list it was given, whose rows do not have them.
\<close>

datatype ranking_with_changes = Enhanced "enhanced list" | Unchanged "ranked list"

definition previous_rank_map :: "ranked list \<Rightarrow> (string \<rightharpoonup> int)" where
  "previous_rank_map prev_comprehensive_ranking =
     fold (\<lambda>it m. m(entity it \<mapsto> final_rank it)) prev_comprehensive_ranking Map.empty"

definition add_change :: "(string \<rightharpoonup> int) \<Rightarrow> ranked \<Rightarrow> enhanced" where
  "add_change prev_rank_map it =
     (let current_rank = final_rank it;
          prev_rank = prev_rank_map (entity it)
      in \<lparr>entity = entity it,
          gdelt_mentions = gdelt_mentions it,
          gdelt_rank = gdelt_rank it,
          newsapi_mentions = newsapi_mentions it,
          newsapi_rank = newsapi_rank it,
          combined_rank_score = combined_rank_score it,
          final_rank = final_rank it,
          previous_rank = prev_rank,
          rank_change = (case prev_rank of None \<Rightarrow> None | Some p \<Rightarrow> Some (p - current_rank)),
          rank_change_direction =
            (case prev_rank of
               None \<Rightarrow> None
             | Some p \<Rightarrow>
                 if p - current_rank > 0 then Some ''up''
                 else if p - current_rank < 0 then Some ''down''
                 else Some ''same'')\<rparr>)"

definition previous_comprehensive_ranking ::
  "(string list \<Rightarrow> string list) \<Rightarrow> string \<Rightarrow> ranked list action" where
  \<comment> \<open>the first statements of the \<open>try\<close> block: the combined ranking of the month before\<close>
  "previous_comprehensive_ranking iter prev_month =
     and_then (get_gdelt_ranking_data prev_month) (\<lambda>prev_gdelt_data.
     and_then (get_newsapi_mom_analysis prev_month) (\<lambda>prev_newsapi_result.
       let prev_newsapi_data = map as_item (newsapi_results prev_newsapi_result)
       in result (calculate_comprehensive_ranking iter prev_gdelt_data prev_newsapi_data)))"

definition calculate_ranking_changes ::
  "(string list \<Rightarrow> string list) \<Rightarrow> string \<Rightarrow> ranked list \<Rightarrow> ranking_with_changes action" where
  "calculate_ranking_changes iter target_month current_ranking =
     (case parse_year_month target_month of
        Inl e \<Rightarrow> raise e
      | Inr ym \<Rightarrow>
          let prev_month =
                format_year_month (fst (previous_calendar_month ym)) (snd (previous_calendar_month ym))
          in try_except
               (and_then (previous_comprehensive_ranking iter prev_month)
                  (\<lambda>prev_comprehensive_ranking.
                     let prev_rank_map = previous_rank_map prev_comprehensive_ranking
                     in result (Enhanced (map (add_change prev_rank_map) current_ranking))))
               (\<lambda>e. result (Unchanged current_ranking)))"

record comprehensive_response =
  response_target_month :: string
  response_total_companies :: int
  response_results :: ranking_with_changes

definition get_comprehensive_ranking ::
  "(string list \<Rightarrow> string list) \<Rightarrow> string \<Rightarrow> comprehensive_response action" where
  "get_comprehensive_ranking iter target_month =
     try_except
       (and_then (get_gdelt_ranking_data target_month) (\<lambda>gdelt_data.
        and_then (get_newsapi_mom_analysis target_month) (\<lambda>newsapi_result.
          let newsapi_data = map as_item (newsapi_results newsapi_result);
              comprehensive_ranking = calculate_comprehensive_ranking iter gdelt_data newsapi_data
          in and_then (calculate_ranking_changes iter target_month comprehensive_ranking)
               (\<lambda>ranking_with_changes.
                  result
                    \<lparr>response_target_month = target_month,
                     response_total_companies = int (length comprehensive_ranking),
                     response_results = ranking_with_changes\<rparr>))))
       (\<lambda>e. raise (HTTPException 500))"

section \<open>Heat index\<close>

subsection \<open>GDELTAPIService._process_heat_index_response (app/services/gdelt_service.py)\<close>

text \<open>
  The response of the timeline service is decoded JSON (the keys of an object are
  distinct).  The function looks for \<open>{"timeline": [{"data": [{"value": v}, ..]}, ..]}\<close>
  and keeps every \<open>v\<close> that is an int or a float (a bool is an int in Python).  Whatever
  raises inside is caught, and the answer is then the error response, whose
  \<open>timelinevol_value\<close> is \<open>0.0\<close>.
\<close>

datatype json =
  JNull
| JBool bool
| JInt int
| JFloat rat
| JStr string
| JList "json list"
| JObj "(string \<times> json) list"












subsection \<open>HeatIndex.heat_level (app/models/heat_index.py)\<close>



section \<open>A small database\<close>

text \<open>
  Two active companies.  In the NewsAPI source, Acme goes from 10000 mentions in August
  2025 to 10001 in September, Beta from 400 to 401.  The month-over-month table holds the
  GDELT counts of both months.  Nothing is stored for any other month.
\<close>

definition acme :: company_rec where
  "acme = \<lparr>company_id = 1, cleaned_name = ''Acme'', company_status = ''active''\<rparr>"

definition beta :: company_rec where
  "beta = \<lparr>company_id = 2, cleaned_name = ''Beta'', company_status = ''active''\<rparr>"

definition example_db :: database where
  "example_db =
     \<lparr>companies = [acme, beta],
      monthly_mentions =
        [\<lparr>mention_company_id = 1, year_month = ''2025-08'', mention_count = 10000, data_source = ''newsapi''\<rparr>,
         \<lparr>mention_company_id = 1, year_month = ''2025-09'', mention_count = 10001, data_source = ''newsapi''\<rparr>,
         \<lparr>mention_company_id = 2, year_month = ''2025-08'', mention_count = 400, data_source = ''newsapi''\<rparr>,
         \<lparr>mention_company_id = 2, year_month = ''2025-09'', mention_count = 401, data_source = ''newsapi''\<rparr>],
      yoy_table =
        [\<lparr>analysis_company_id = 1, analysis_month = ''2025-09'', current_month_mentions = 150,
          previous_period_mentions = 200, monthly_change_percentage = Some (- 25),
          analysis_status = ''success''\<rparr>,
         \<lparr>analysis_company_id = 2, analysis_month = ''2025-09'', current_month_mentions = 0,
          previous_period_mentions = 0, monthly_change_percentage = None,
          analysis_status = ''failed''\<rparr>],
      mom_table =
        [\<lparr>analysis_company_id = 1, analysis_month = ''2025-08'', current_month_mentions = 50,
          previous_period_mentions = 45, monthly_change_percentage = Some (111 / 10),
          analysis_status = ''success''\<rparr>,
         \<lparr>analysis_company_id = 2, analysis_month = ''2025-08'', current_month_mentions = 40,
          previous_period_mentions = 40, monthly_change_percentage = Some 0,
          analysis_status = ''success''\<rparr>],
      statements = [],
      faulty = (\<lambda>n. False)\<rparr>"

definition current_example :: "ranked list" where
  \<comment> \<open>a ranking of the current month: Beta first, Acme second, Gamma third\<close>
  "current_example =
     calculate_comprehensive_ranking remdups
       [gdelt_row ''Beta'' 90, gdelt_row ''Acme'' 50, gdelt_row ''Gamma'' 1]
       [newsapi_row ''Beta'' 70 0, newsapi_row ''Acme'' 60 0, newsapi_row ''Gamma'' 2 0]"

section \<open>The percentage as the specification words it\<close>

text \<open>
  For comparison with the code: \<open>((current - previous) / previous) * 100\<close> as an exact
  number, rounded to one decimal place with halves going up.
\<close>

definition claimed_percentage :: "int \<Rightarrow> int \<Rightarrow> rat" where
  "claimed_percentage current previous =
     of_int \<lfloor>(of_int (current - previous) / of_int previous :: rat) * 100 * 10 + 1 / 2\<rfloor> / 10"

section \<open>Properties of the ranking\<close>

lemma count_higher_eq:
  "count_higher k m xs r = r + int (length (filter (\<lambda>other. get_or_zero other k > m) xs))"
  by (induction xs arbitrary: r) simp_all

lemma count_lower_eq:
  "count_lower s xs r = r + int (length (filter (\<lambda>other. combined_rank_score other < s) xs))"
  by (induction xs arbitrary: r) simp_all

lemma find_app:
  "find P (xs @ ys) = (case find P xs of None \<Rightarrow> find P ys | Some x \<Rightarrow> Some x)"
  by (induction xs) simp_all

lemma proper_ranking_loop_lookup:
  "proper_ranking_loop data k xs rank_map name =
     (case find (\<lambda>it. company_name it = name) (rev xs) of
        None \<Rightarrow> rank_map name
      | Some it \<Rightarrow> Some \<lparr>rank = count_higher k (get_or_zero it k) data 1,
                        mentions = get_or_zero it k\<rparr>)"
proof (induction xs arbitrary: rank_map)
  case Nil
  show ?case by simp
next
  case (Cons x xs)
  show ?case
    by (simp add: Cons.IH find_app split: option.split)
qed

lemma calculate_proper_ranking_lookup:
  "calculate_proper_ranking data k name =
     map_option (\<lambda>it. \<lparr>rank = 1 + int (length (filter (\<lambda>other. get_or_zero other k > get_or_zero it k) data)),
                       mentions = get_or_zero it k\<rparr>)
       (find (\<lambda>it. company_name it = name) (rev data))"
  by (simp add: calculate_proper_ranking_def proper_ranking_loop_lookup count_higher_eq
      split: option.split)


lemma final_rank_map:
  "map final_rank (calculate_comprehensive_ranking iter g n) =
   map (\<lambda>e. 1 + int (length (filter (\<lambda>other. combined_rank_score other < combined_rank_score e)
          (calculate_comprehensive_ranking iter g n))))
       (calculate_comprehensive_ranking iter g n)"
  by (simp add: calculate_comprehensive_ranking_def Let_def with_final_rank_def count_lower_eq
      filter_map o_def)

lemma set_iteration_remdups: "set_iteration remdups"
  by (simp add: set_iteration_def)

lemma company_score_company [simp]: "entity (score_company g n gm nm name) = name"
  by (simp add: score_company_def Let_def)

lemma company_with_final_rank [simp]: "entity (with_final_rank rows s) = entity s"
  by (simp add: with_final_rank_def)

lemma set_scored_rows:
  "set (scored_rows iter g n) =
     score_company g n (calculate_proper_ranking g ''current_month_mentions'')
       (calculate_proper_ranking n ''current_mentions'')
       ` set (iter (map company_name g @ map company_name n))"
  by (simp add: scored_rows_def Let_def)

lemma distinct_company_sort_key:
  "distinct (map entity (sort_key f xs)) = distinct (map entity xs)"
  by (simp add: distinct_map)

lemma map_company_ranking:
  "map entity (calculate_comprehensive_ranking iter g n) = map entity (scored_rows iter g n)"
  by (simp add: calculate_comprehensive_ranking_def Let_def)

lemma distinct_company_scored_rows:
  "distinct (map entity (scored_rows iter g n)) =
     distinct (iter (map company_name g @ map company_name n))"
  by (simp add: scored_rows_def Let_def distinct_company_sort_key o_def)

lemma set_company_scored_rows:
  "set (map entity (scored_rows iter g n)) = set (iter (map company_name g @ map company_name n))"
  by (simp add: set_scored_rows image_image)

lemma company_names_distinct:
  "set_iteration iter \<Longrightarrow> distinct (map entity (calculate_comprehensive_ranking iter g n))"
  by (simp add: map_company_ranking distinct_company_scored_rows set_iteration_def)

lemma company_names_union:
  "set_iteration iter \<Longrightarrow>
   set (map entity (calculate_comprehensive_ranking iter g n)) =
     company_name ` set g \<union> company_name ` set n"
  by (simp only: map_company_ranking set_company_scored_rows) (simp add: set_iteration_def)

lemma proper_ranking_None_iff:
  "calculate_proper_ranking data k name = None \<longleftrightarrow> name \<notin> company_name ` set data"
  by (auto simp: calculate_proper_ranking_lookup find_None_iff)

lemma ranking_row_fields:
  assumes "e \<in> set (calculate_comprehensive_ranking iter g n)"
  shows "combined_rank_score e = gdelt_rank e + newsapi_rank e"
    and "gdelt_rank e = (case calculate_proper_ranking g ''current_month_mentions'' (entity e) of
                          Some i \<Rightarrow> rank i | None \<Rightarrow> int (length g) + 1)"
    and "gdelt_mentions e = (case calculate_proper_ranking g ''current_month_mentions'' (entity e) of
                          Some i \<Rightarrow> mentions i | None \<Rightarrow> 0)"
    and "newsapi_rank e = (case calculate_proper_ranking n ''current_mentions'' (entity e) of
                          Some i \<Rightarrow> rank i | None \<Rightarrow> int (length n) + 1)"
    and "newsapi_mentions e = (case calculate_proper_ranking n ''current_mentions'' (entity e) of
                          Some i \<Rightarrow> mentions i | None \<Rightarrow> 0)"
proof -
  from assms obtain name where
    e: "e = with_final_rank (scored_rows iter g n)
              (score_company g n (calculate_proper_ranking g ''current_month_mentions'')
                 (calculate_proper_ranking n ''current_mentions'') name)"
    by (auto simp: calculate_comprehensive_ranking_def Let_def set_scored_rows)
  show "combined_rank_score e = gdelt_rank e + newsapi_rank e"
    by (simp add: e with_final_rank_def score_company_def Let_def)
  show "gdelt_rank e = (case calculate_proper_ranking g ''current_month_mentions'' (entity e) of
                          Some i \<Rightarrow> rank i | None \<Rightarrow> int (length g) + 1)"
    by (simp add: e with_final_rank_def score_company_def Let_def)
  show "gdelt_mentions e = (case calculate_proper_ranking g ''current_month_mentions'' (entity e) of
                          Some i \<Rightarrow> mentions i | None \<Rightarrow> 0)"
    by (simp add: e with_final_rank_def score_company_def Let_def)
  show "newsapi_rank e = (case calculate_proper_ranking n ''current_mentions'' (entity e) of
                          Some i \<Rightarrow> rank i | None \<Rightarrow> int (length n) + 1)"
    by (simp add: e with_final_rank_def score_company_def Let_def)
  show "newsapi_mentions e = (case calculate_proper_ranking n ''current_mentions'' (entity e) of
                          Some i \<Rightarrow> mentions i | None \<Rightarrow> 0)"
    by (simp add: e with_final_rank_def score_company_def Let_def)
qed

lemma source_part:
  assumes r: "r = (case calculate_proper_ranking data k name of Some i \<Rightarrow> rank i | None \<Rightarrow> int (length data) + 1)"
      and m: "m = (case calculate_proper_ranking data k name of Some i \<Rightarrow> mentions i | None \<Rightarrow> 0)"
  shows "if name \<in> company_name ` set data
         then calculate_proper_ranking data k name = Some \<lparr>rank = r, mentions = m\<rparr>
         else m = 0 \<and> r = int (length data) + 1"
proof (cases "calculate_proper_ranking data k name")
  case None
  then have "name \<notin> company_name ` set data"
    using proper_ranking_None_iff [of data k name] by simp
  then show ?thesis using None r m by simp
next
  case (Some i)
  then have "name \<in> company_name ` set data"
    using proper_ranking_None_iff [of data k name] by simp
  then show ?thesis using Some r m by simp
qed


lemma count_company_once:
  assumes "distinct (map entity out)"
  shows "length (filter (\<lambda>e. entity e = name) out) = (if name \<in> set (map entity out) then 1 else 0)"
  using assms
  by (induction out) (auto simp: filter_empty_conv)

lemma last_occurrence:
  assumes "company_name it \<notin> company_name ` set ys"
  shows "calculate_proper_ranking (xs @ it # ys) k (company_name it) =
     Some \<lparr>rank = 1 + int (length (filter (\<lambda>other. get_or_zero other k > get_or_zero it k) (xs @ it # ys))),
           mentions = get_or_zero it k\<rparr>"
proof -
  have "find (\<lambda>r. company_name r = company_name it) (rev ys) = None"
    using assms by (fastforce simp: find_None_iff image_iff)
  then have "find (\<lambda>r. company_name r = company_name it) (rev (xs @ it # ys)) = Some it"
    by (simp add: find_app)
  then show ?thesis
    by (simp only: calculate_proper_ranking_lookup option.map)
qed

subsection \<open>Claim C3\<close>

text \<open>
  C3.  The rank that \<open>calculate_proper_ranking\<close> records under a company name is the one of
  the last row carrying that name, and it equals 1 plus the number of rows of the whole
  input whose metric is strictly greater; rows with equal metrics therefore get equal ranks,
  and metrics 50, 50, 30 give ranks 1, 1, 3.  The final rank of every row of the combined
  ranking is computed by the same rule over the combined scores, a strictly lower score
  counting as better: 1 plus the number of rows with a strictly lower combined score.
\<close>

theorem competition_ranking:
  "calculate_proper_ranking data k name =
     map_option
       (\<lambda>it. \<lparr>rank = 1 + int (length (filter (\<lambda>other. get_or_zero other k > get_or_zero it k) data)),
              mentions = get_or_zero it k\<rparr>)
       (find (\<lambda>it. company_name it = name) (rev data)) \<and>
   map final_rank (calculate_comprehensive_ranking iter gdelt_data newsapi_data) =
     map (\<lambda>e. 1 + int (length (filter (\<lambda>other. combined_rank_score other < combined_rank_score e)
                                  (calculate_comprehensive_ranking iter gdelt_data newsapi_data))))
         (calculate_comprehensive_ranking iter gdelt_data newsapi_data) \<and>
   map (\<lambda>n. map_option rank
               (calculate_proper_ranking [gdelt_row ''A'' 50, gdelt_row ''B'' 50, gdelt_row ''C'' 30]
                  ''current_month_mentions'' n))
       [''A'', ''B'', ''C''] = [Some 1, Some 1, Some 3]"
proof (intro conjI)
  show "map (\<lambda>n. map_option rank
               (calculate_proper_ranking [gdelt_row ''A'' 50, gdelt_row ''B'' 50, gdelt_row ''C'' 30]
                  ''current_month_mentions'' n))
       [''A'', ''B'', ''C''] = [Some 1, Some 1, Some 3]"
    by (simp add: calculate_proper_ranking_lookup get_or_zero_def gdelt_row_def)
qed (rule calculate_proper_ranking_lookup final_rank_map)+

subsection \<open>Claim C4\<close>

text \<open>
  C4.  The combined ranking has a row for exactly the names occurring in either source.
  In every row the combined score is the sum of the two per-source ranks; for a source that
  has the name, rank and mentions are the ones of that source's rank map; for a source that
  lacks it, mentions are 0 and the rank is the length of that source's list plus 1.
\<close>

theorem combined_ranking_rows:
  assumes "set_iteration iter"
  shows "set (map entity (calculate_comprehensive_ranking iter gdelt_data newsapi_data)) =
           company_name ` set gdelt_data \<union> company_name ` set newsapi_data \<and>
         (\<forall>e \<in> set (calculate_comprehensive_ranking iter gdelt_data newsapi_data).
            combined_rank_score e = gdelt_rank e + newsapi_rank e \<and>
            (if entity e \<in> company_name ` set gdelt_data
             then calculate_proper_ranking gdelt_data ''current_month_mentions'' (entity e) =
                    Some \<lparr>rank = gdelt_rank e, mentions = gdelt_mentions e\<rparr>
             else gdelt_mentions e = 0 \<and> gdelt_rank e = int (length gdelt_data) + 1) \<and>
            (if entity e \<in> company_name ` set newsapi_data
             then calculate_proper_ranking newsapi_data ''current_mentions'' (entity e) =
                    Some \<lparr>rank = newsapi_rank e, mentions = newsapi_mentions e\<rparr>
             else newsapi_mentions e = 0 \<and> newsapi_rank e = int (length newsapi_data) + 1))"
proof (intro conjI ballI)
  show "set (map entity (calculate_comprehensive_ranking iter gdelt_data newsapi_data)) =
           company_name ` set gdelt_data \<union> company_name ` set newsapi_data"
    by (rule company_names_union [OF assms])
next
  fix e assume e: "e \<in> set (calculate_comprehensive_ranking iter gdelt_data newsapi_data)"
  show "combined_rank_score e = gdelt_rank e + newsapi_rank e"
    by (rule ranking_row_fields(1) [OF e])
  show "if entity e \<in> company_name ` set gdelt_data
        then calculate_proper_ranking gdelt_data ''current_month_mentions'' (entity e) =
               Some \<lparr>rank = gdelt_rank e, mentions = gdelt_mentions e\<rparr>
        else gdelt_mentions e = 0 \<and> gdelt_rank e = int (length gdelt_data) + 1"
    by (rule source_part [OF ranking_row_fields(2) [OF e] ranking_row_fields(3) [OF e]])
  show "if entity e \<in> company_name ` set newsapi_data
        then calculate_proper_ranking newsapi_data ''current_mentions'' (entity e) =
               Some \<lparr>rank = newsapi_rank e, mentions = newsapi_mentions e\<rparr>
        else newsapi_mentions e = 0 \<and> newsapi_rank e = int (length newsapi_data) + 1"
    by (rule source_part [OF ranking_row_fields(4) [OF e] ranking_row_fields(5) [OF e]])
qed

text \<open>
  Two sources of five rows each with no name in common: \<open>A\<close> is first in the first source
  and absent from the second, so its combined score is 1 + 6 = 7.
\<close>

theorem combined_ranking_rows_witness:
  "set_iteration remdups \<and>
   map (\<lambda>e. (entity e, gdelt_mentions e, gdelt_rank e, newsapi_mentions e, newsapi_rank e,
             combined_rank_score e))
     (calculate_comprehensive_ranking remdups
        [gdelt_row ''A'' 50, gdelt_row ''B'' 40, gdelt_row ''C'' 30, gdelt_row ''D'' 20, gdelt_row ''E'' 10]
        [newsapi_row ''F'' 9 0, newsapi_row ''G'' 8 0, newsapi_row ''H'' 7 0, newsapi_row ''I'' 6 0,
         newsapi_row ''J'' 5 0]) =
     [(''A'', 50, 1, 0, 6, 7), (''F'', 0, 6, 9, 1, 7), (''B'', 40, 2, 0, 6, 8), (''G'', 0, 6, 8, 2, 8),
      (''C'', 30, 3, 0, 6, 9), (''H'', 0, 6, 7, 3, 9), (''D'', 20, 4, 0, 6, 10), (''I'', 0, 6, 6, 4, 10),
      (''E'', 10, 5, 0, 6, 11), (''J'', 0, 6, 5, 5, 11)]"
proof -
  have h: "set_iteration remdups"
    by (rule set_iteration_remdups)
  show ?thesis
    using h combined_ranking_rows [OF h,
        of "[gdelt_row ''A'' 50, gdelt_row ''B'' 40, gdelt_row ''C'' 30, gdelt_row ''D'' 20, gdelt_row ''E'' 10]"
           "[newsapi_row ''F'' 9 0, newsapi_row ''G'' 8 0, newsapi_row ''H'' 7 0, newsapi_row ''I'' 6 0,
             newsapi_row ''J'' 5 0]"]
    by (simp add: calculate_comprehensive_ranking_def scored_rows_def Let_def score_company_def
        calculate_proper_ranking_lookup get_or_zero_def gdelt_row_def newsapi_row_def
        with_final_rank_def)
qed

subsection \<open>Claim C10\<close>

text \<open>
  C10.  Every name of the union of the two inputs is the name of exactly one row of the
  combined ranking, and no other name has a row, whatever repetitions the inputs contain.
  When a source lists a name several times, its rank map holds the values of the last row
  with that name.
\<close>

theorem combined_ranking_one_row_per_name:
  assumes "set_iteration iter"
      and "company_name it \<notin> company_name ` set ys"
  shows "length (filter (\<lambda>e. entity e = name)
                  (calculate_comprehensive_ranking iter gdelt_data newsapi_data)) =
           (if name \<in> company_name ` set gdelt_data \<union> company_name ` set newsapi_data then 1 else 0) \<and>
         calculate_proper_ranking (xs @ it # ys) k (company_name it) =
           Some \<lparr>rank = 1 + int (length (filter (\<lambda>other. get_or_zero other k > get_or_zero it k)
                                           (xs @ it # ys))),
                 mentions = get_or_zero it k\<rparr>"
proof
  have "length (filter (\<lambda>e. entity e = name)
                  (calculate_comprehensive_ranking iter gdelt_data newsapi_data)) =
        (if name \<in> set (map entity (calculate_comprehensive_ranking iter gdelt_data newsapi_data))
         then 1 else 0)"
    by (rule count_company_once [OF company_names_distinct [OF assms(1)]])
  then show "length (filter (\<lambda>e. entity e = name)
                  (calculate_comprehensive_ranking iter gdelt_data newsapi_data)) =
           (if name \<in> company_name ` set gdelt_data \<union> company_name ` set newsapi_data then 1 else 0)"
    by (simp only: company_names_union [OF assms(1)])
next
  show "calculate_proper_ranking (xs @ it # ys) k (company_name it) =
           Some \<lparr>rank = 1 + int (length (filter (\<lambda>other. get_or_zero other k > get_or_zero it k)
                                           (xs @ it # ys))),
                 mentions = get_or_zero it k\<rparr>"
    by (rule last_occurrence [OF assms(2)])
qed

text \<open>
  The first source lists \<open>A\<close> twice (50, then 10): the combined ranking has one row for
  \<open>A\<close>, and the rank map of that source holds the later 10 with rank 3.
\<close>

theorem combined_ranking_one_row_per_name_witness:
  "set_iteration remdups \<and>
   company_name (gdelt_row ''A'' 10) \<notin> company_name ` set [] \<and>
   length (filter (\<lambda>e. entity e = ''A'')
             (calculate_comprehensive_ranking remdups
                [gdelt_row ''A'' 50, gdelt_row ''B'' 40, gdelt_row ''A'' 10]
                [newsapi_row ''B'' 5 0, newsapi_row ''C'' 7 0])) = 1 \<and>
   calculate_proper_ranking ([gdelt_row ''A'' 50, gdelt_row ''B'' 40] @ gdelt_row ''A'' 10 # [])
     ''current_month_mentions'' ''A'' = Some \<lparr>rank = 3, mentions = 10\<rparr>"
proof -
  have h: "set_iteration remdups"
    by (rule set_iteration_remdups)
  have h2: "company_name (gdelt_row ''A'' 10) \<notin> company_name ` set []"
    by simp
  show ?thesis
    using h h2 combined_ranking_one_row_per_name [OF h h2,
        of "''A''" "[gdelt_row ''A'' 50, gdelt_row ''B'' 40, gdelt_row ''A'' 10]"
           "[newsapi_row ''B'' 5 0, newsapi_row ''C'' 7 0]"
           "[gdelt_row ''A'' 50, gdelt_row ''B'' 40]" "''current_month_mentions''"]
    by (simp add: gdelt_row_def newsapi_row_def get_or_zero_def)
qed

section \<open>Storage actions\<close>


lemma first_mention_eq:
  "first_mention cid month src db =
     (if faulty db (length (statements db)) then Inl StorageFault
      else Inr (find (\<lambda>r. mention_company_id r = cid \<and> year_month r = month \<and>
                            (case src of None \<Rightarrow> True | Some ss \<Rightarrow> data_source r \<in> set ss))
                  (monthly_mentions db)),
      db\<lparr>statements := statements db @ [Select ''monthly_mentions'']\<rparr>)"
  by (simp add: first_mention_def and_then_def execute_def Let_def)

section \<open>Rank changes against the previous month\<close>

lemma previous_rank_map_fold:
  "fold (\<lambda>it m. m(entity it \<mapsto> final_rank it)) prev m0 name =
     (case find (\<lambda>e. entity e = name) (rev prev) of None \<Rightarrow> m0 name | Some e \<Rightarrow> Some (final_rank e))"
  by (induction prev arbitrary: m0) (simp_all add: find_app split: option.split)

lemma previous_rank_map_lookup:
  "previous_rank_map prev name = map_option final_rank (find (\<lambda>e. entity e = name) (rev prev))"
  by (simp add: previous_rank_map_def previous_rank_map_fold split: option.split)

lemma add_change_fields:
  "previous_rank (add_change m it) = m (entity it)"
  "rank_change (add_change m it) = map_option (\<lambda>p. p - final_rank it) (m (entity it))"
  "rank_change_direction (add_change m it) =
     map_option (\<lambda>p. if p - final_rank it > 0 then ''up''
                      else if p - final_rank it < 0 then ''down'' else ''same'')
       (m (entity it))"
  by (simp_all add: add_change_def Let_def split: option.split)

lemma ranking_changes_result:
  assumes "parse_year_month target_month = Inr ym"
  shows "fst (calculate_ranking_changes iter target_month current_ranking db) =
     (case fst (previous_comprehensive_ranking iter
                  (format_year_month (fst (previous_calendar_month ym))
                     (snd (previous_calendar_month ym))) db) of
        Inl e \<Rightarrow> Inr (Unchanged current_ranking)
      | Inr prev \<Rightarrow> Inr (Enhanced (map (add_change (previous_rank_map prev)) current_ranking)))"
  using assms
  by (simp add: calculate_ranking_changes_def Let_def try_except_def and_then_def result_def
      split: prod.split sum.split)

subsection \<open>Claim C7\<close>

text \<open>
  C7.  For a month key that parses, \<open>calculate_ranking_changes\<close> answers in one of two ways.
  When the combined ranking of the previous month can be computed, every current row gets
  the previous final rank recorded under its name (none when the name had no row then),
  the delta \<open>previous final rank - current final rank\<close>, and the direction \<open>up\<close> for a
  positive delta, \<open>down\<close> for a negative one and \<open>same\<close> for zero; a row without a previous
  rank has neither delta nor direction, which is what the claim calls unknown.  When that
  computation raises, the current ranking is returned as it was given, no row carrying a
  delta or direction, and the call itself does not raise.
\<close>

theorem rank_delta_against_previous_month:
  assumes "parse_year_month target_month = Inr ym"
  shows "fst (calculate_ranking_changes iter target_month current_ranking db) =
           (case fst (previous_comprehensive_ranking iter
                        (format_year_month (fst (previous_calendar_month ym))
                           (snd (previous_calendar_month ym))) db) of
              Inl e \<Rightarrow> Inr (Unchanged current_ranking)
            | Inr prev \<Rightarrow> Inr (Enhanced (map (add_change (previous_rank_map prev)) current_ranking))) \<and>
         previous_rank (add_change (previous_rank_map prev) it) =
           map_option final_rank (find (\<lambda>e. entity e = entity it) (rev prev)) \<and>
         rank_change (add_change m it) = map_option (\<lambda>p. p - final_rank it) (m (entity it)) \<and>
         rank_change_direction (add_change m it) =
           map_option (\<lambda>p. if p - final_rank it > 0 then ''up''
                            else if p - final_rank it < 0 then ''down'' else ''same'')
             (m (entity it))"
  by (simp only: ranking_changes_result [OF assms] add_change_fields previous_rank_map_lookup
      simp_thms)

text \<open>
  In the example database the previous month ranks Acme first and Beta second; Gamma has
  no row there.  With a storage that raises on every statement the ranking comes back
  unchanged.
\<close>

theorem rank_delta_against_previous_month_witness:
  "parse_year_month ''2025-09'' = Inr (2025, 9) \<and>
   (case fst (calculate_ranking_changes remdups ''2025-09'' current_example example_db) of
      Inr (Enhanced rows) \<Rightarrow>
        map (\<lambda>r. (entity r, final_rank r, previous_rank r, rank_change r, rank_change_direction r)) rows
    | _ \<Rightarrow> []) =
     [(''Beta'', 1, Some 2, Some 1, Some ''up''), (''Acme'', 2, Some 1, Some (- 1), Some ''down''),
      (''Gamma'', 3, None, None, None)] \<and>
   fst (calculate_ranking_changes remdups ''2025-09'' current_example
          (example_db\<lparr>faulty := (\<lambda>n. True)\<rparr>)) = Inr (Unchanged current_example)"
proof -
  have h: "parse_year_month ''2025-09'' = Inr (2025, 9)"
    by code_simp
  have ok: "fst (previous_comprehensive_ranking remdups
                   (format_year_month (fst (previous_calendar_month (2025, 9)))
                      (snd (previous_calendar_month (2025, 9)))) example_db) =
            Inr (calculate_comprehensive_ranking remdups
                   [gdelt_row ''Acme'' 50, gdelt_row ''Beta'' 40]
                   [newsapi_row ''Acme'' 10000 0, newsapi_row ''Beta'' 400 0])"
    by code_simp
  have down: "fst (previous_comprehensive_ranking remdups
                   (format_year_month (fst (previous_calendar_month (2025, 9)))
                      (snd (previous_calendar_month (2025, 9))))
                   (example_db\<lparr>faulty := (\<lambda>n. True)\<rparr>)) = Inl StorageFault"
    by code_simp
  have rows: "map (\<lambda>r. (entity r, final_rank r, previous_rank r, rank_change r, rank_change_direction r))
       (map (add_change (previous_rank_map (calculate_comprehensive_ranking remdups
                   [gdelt_row ''Acme'' 50, gdelt_row ''Beta'' 40]
                   [newsapi_row ''Acme'' 10000 0, newsapi_row ''Beta'' 400 0]))) current_example) =
     [(''Beta'', 1, Some 2, Some 1, Some ''up''), (''Acme'', 2, Some 1, Some (- 1), Some ''down''),
      (''Gamma'', 3, None, None, None)]"
    by code_simp
  from rank_delta_against_previous_month [OF h, of remdups current_example example_db]
  have a: "fst (calculate_ranking_changes remdups ''2025-09'' current_example example_db) =
      Inr (Enhanced (map (add_change (previous_rank_map (calculate_comprehensive_ranking remdups
                   [gdelt_row ''Acme'' 50, gdelt_row ''Beta'' 40]
                   [newsapi_row ''Acme'' 10000 0, newsapi_row ''Beta'' 400 0]))) current_example))"
    by (simp only: ok sum.case)
  from rank_delta_against_previous_month [OF h, of remdups current_example
        "example_db\<lparr>faulty := (\<lambda>n. True)\<rparr>"]
  have b: "fst (calculate_ranking_changes remdups ''2025-09'' current_example
                  (example_db\<lparr>faulty := (\<lambda>n. True)\<rparr>)) = Inr (Unchanged current_example)"
    by (simp only: down sum.case)
  show ?thesis
    by (simp only: h a b rows sum.case ranking_with_changes.case simp_thms)
qed

section \<open>Period analysis\<close>

subsection \<open>Order of the results\<close>





subsection \<open>Claim C6\<close>




subsection \<open>Status and validation on each path\<close>

lemma yoy_status_success:
  "fst (calculate_company_yoy c t p db) = Inr r \<Longrightarrow> row_status r = ''success''"
  by (auto simp: calculate_company_yoy_def and_then_def result_def raise_def Let_def
      split: prod.splits sum.splits)

lemma route_status_success:
  "fst (newsapi_mom_company c t p db) = Inr r \<Longrightarrow> row_status r = ''success''"
  by (auto simp: newsapi_mom_company_def and_then_def result_def Let_def
      split: prod.splits sum.splits)

lemma newsapi_status_rule:
  assumes "fst (newsapi_company_result c t p db) = Inr r"
  shows "status r =
     (if find (\<lambda>m. mention_company_id m = company_id c \<and> year_month m = t \<and> data_source m = ''newsapi'')
            (monthly_mentions db) = None \<and>
         find (\<lambda>m. mention_company_id m = company_id c \<and> year_month m = p \<and> data_source m = ''newsapi'')
            (monthly_mentions db) = None
      then ''no_data'' else ''success'')"
    and "status r = ''no_data'' \<Longrightarrow> current_mentions r = 0 \<and> previous_mentions r = 0"
  using assms
  by (auto simp: newsapi_company_result_def and_then_def first_mention_eq result_def Let_def
      found_def count_or_zero_def split: prod.splits sum.splits if_splits option.splits)

lemma unparsable_month_fails_before_storage:
  assumes "parse_year_month m = Inl e" and "m \<noteq> []"
  shows "calculate_monthly_yoy_analysis now (Some m) company_ids db = (Inl ValueError, db)"
  using assms by (simp add: calculate_monthly_yoy_analysis_def raise_def)

subsection \<open>Claim C8\<close>

text \<open>
  C8.  On the year-over-year path the status does not follow the rule.  For May 2024 the
  example database has no mention record of Acme, neither for that month nor for May
  2023; both counts are 0, and \<open>_calculate_company_yoy\<close> reports \<open>success\<close> where the claim
  requires \<open>no_data\<close>.  \<open>NewsAPIRealDataService.get_newsapi_mom_analysis\<close>, in the same
  situation, reports \<open>no_data\<close>.
\<close>

theorem yoy_status_without_records:
  "filter (\<lambda>r. mention_company_id r = company_id acme \<and> year_month r \<in> {''2024-05'', ''2023-05'', ''2024-04''})
     (monthly_mentions example_db) = [] \<and>
   (case fst (calculate_company_yoy acme ''2024-05'' ''2023-05'' example_db) of
      Inr r \<Rightarrow> (row_current_month_mentions r, row_previous_mentions r, row_status r)
    | Inl e \<Rightarrow> (0, 0, [])) = (0, 0, ''success'') \<and>
   (case fst (newsapi_company_result acme ''2024-05'' ''2024-04'' example_db) of
      Inr r \<Rightarrow> (current_mentions r, previous_mentions r, status r)
    | Inl e \<Rightarrow> (0, 0, [])) = (0, 0, ''no_data'')"
  by code_simp

subsection \<open>Claim C9\<close>

text \<open>
  C9.  \<open>calculate_monthly_yoy_analysis\<close> checks only that the key splits at the hyphen into
  two ints.  The key \<open>2025-13\<close> passes: the call returns normally, compares with \<open>2024-13\<close>,
  and by then has sent nine statements to the database, two of them commits that left
  analysis rows for the month \<open>2025-13\<close>.
\<close>

theorem month_13_reaches_storage:
  "(case calculate_monthly_yoy_analysis (2025, 11) (Some ''2025-13'') None example_db of
      (r, db') \<Rightarrow>
        (case r of Inr s \<Rightarrow> Some (summary_previous_month s, successful_analyses s) | Inl e \<Rightarrow> None,
         statements db',
         map analysis_month (yoy_table db'))) =
   (Some (''2024-13'', 2),
    [Select ''companies'',
     Select ''monthly_mentions'', Select ''monthly_mentions'',
     Select ''monthly_yoy_analysis'', Commit ''monthly_yoy_analysis'',
     Select ''monthly_mentions'', Select ''monthly_mentions'',
     Select ''monthly_yoy_analysis'', Commit ''monthly_yoy_analysis''],
    [''2025-09'', ''2025-09'', ''2025-13'', ''2025-13''])"
  by code_simp

section \<open>Percentage change\<close>

lemma newsapi_result_acme:
  "fst (newsapi_company_result acme ''2025-09'' ''2025-08'' example_db) =
     Inr \<lparr>result_company_id = 1, result_company_name = ''Acme'', current_month = ''2025-09'',
          previous_month = ''2025-08'', current_mentions = 10001, previous_mentions = 10000,
          change_percentage = py_round (fst (newsapi_change 10001 10000)) 1,
          formatted_change = snd (newsapi_change 10001 10000),
          status = ''success''\<rparr>"
  by (simp add: newsapi_company_result_def and_then_def first_mention_eq result_def Let_def
      example_db_def acme_def count_or_zero_def found_def)

lemma newsapi_result_beta:
  "fst (newsapi_company_result beta ''2025-09'' ''2025-08'' example_db) =
     Inr \<lparr>result_company_id = 2, result_company_name = ''Beta'', current_month = ''2025-09'',
          previous_month = ''2025-08'', current_mentions = 401, previous_mentions = 400,
          change_percentage = py_round (fst (newsapi_change 401 400)) 1,
          formatted_change = snd (newsapi_change 401 400),
          status = ''success''\<rparr>"
  by (simp add: newsapi_company_result_def and_then_def first_mention_eq result_def Let_def
      example_db_def beta_def count_or_zero_def found_def)

lemma route_row_beta:
  "fst (newsapi_mom_company beta ''2025-09'' ''2025-08'' example_db) =
     Inr \<lparr>row_company_id = 2, row_company_name = ''Beta'', row_analysis_month = ''2025-09'',
          row_current_month_mentions = 401, row_previous_mentions = 400,
          row_monthly_change_percentage = Some (fst (newsapi_change 401 400)),
          row_formatted_change = snd (newsapi_change 401 400),
          row_status = ''success''\<rparr>"
  by (simp add: newsapi_mom_company_def and_then_def first_mention_eq result_def Let_def
      example_db_def beta_def count_or_zero_def found_def)

lemma newsapi_change_10001: "newsapi_change 10001 10000 = (fl (1 / 100), ''+0.0%'')"
  by code_simp

lemma newsapi_change_401: "newsapi_change 401 400 = (1 / 4, ''+0.2%'')"
  by code_simp

lemma py_round_hundredth: "py_round (fl (1 / 100)) 1 = 0"
  by code_simp

lemma py_round_quarter: "py_round (1 / 4) 1 = fl (2 / 10)"
  by code_simp

lemma fl_fifth: "fl (2 / 10) = 3602879701896397 / 18014398509481984"
  by code_simp

subsection \<open>The edge cases of the policy\<close>

lemma percentage_change_previous_zero:
  "calculate_percentage_change 0 0 = Inr 0"
  "c \<noteq> 0 \<Longrightarrow> calculate_percentage_change c 0 = Inr 999"
  "newsapi_change 0 0 = (0, ''0.0%'')"
  "c \<noteq> 0 \<Longrightarrow> newsapi_change c 0 = (999, ''+999.0%'')"
  by (simp_all add: calculate_percentage_change_def newsapi_change_def)

lemma format_sentinels:
  "format_percentage_change (Some 0) = ''0.0%'' \<and> format_percentage_change (Some 999) = ''+999.0%''"
  by code_simp

lemma format_percentage_change_sign:
  "format_percentage_change (Some d) =
     (if fl d > 0 then ''+'' @ format_f1 (fl d) @ ''%''
      else if fl d < 0 then ''-'' @ tl (format_f1 (fl d)) @ ''%''
      else ''0.0%'')"
  by (simp add: format_percentage_change_def format_f1_def Let_def)

subsection \<open>Claim C1\<close>

text \<open>
  C1.  \<open>NewsAPIRealDataService.get_newsapi_mom_analysis\<close> takes the sign of the formatted
  string from the change before rounding and reports the change after rounding.  Acme goes
  from 10000 to 10001 mentions: the reported value is 0.0 and the formatted string is
  \<open>+0.0%\<close>, where the claim requires \<open>0.0%\<close> for a zero value.  \<open>AnalysisService\<close> formats the
  rounded value and gives \<open>0.0%\<close> for the same counts.
\<close>

theorem zero_value_formatted_with_sign:
  "(case fst (newsapi_company_result acme ''2025-09'' ''2025-08'' example_db) of
      Inr r \<Rightarrow> (current_mentions r, previous_mentions r, change_percentage r, formatted_change r)
    | Inl e \<Rightarrow> (0, 0, 0, [])) = (10001, 10000, 0, ''+0.0%'') \<and>
   calculate_percentage_change 10001 10000 = Inr 0 \<and>
   format_percentage_change (Some 0) = ''0.0%''"
proof (intro conjI)
  show "(case fst (newsapi_company_result acme ''2025-09'' ''2025-08'' example_db) of
      Inr r \<Rightarrow> (current_mentions r, previous_mentions r, change_percentage r, formatted_change r)
    | Inl e \<Rightarrow> (0, 0, 0, [])) = (10001, 10000, 0, ''+0.0%'')"
    by (simp add: newsapi_result_acme newsapi_change_10001 py_round_hundredth [unfolded One_nat_def])
  show "calculate_percentage_change 10001 10000 = Inr 0"
    by code_simp
  show "format_percentage_change (Some 0) = ''0.0%''"
    by (simp add: format_sentinels)
qed

subsection \<open>Claim C2\<close>

text \<open>
  C2.  Beta goes from 400 to 401 mentions; the change is 0.25 percent, which rounds half
  up to 0.3.  \<open>NewsAPIRealDataService.get_newsapi_mom_analysis\<close> rounds with \<open>round\<close>, ties
  to even, and reports the float 0.2; the route \<open>/analysis/newsapi-mom\<close> reports the
  unrounded 0.25; \<open>AnalysisService._calculate_percentage_change\<close> reports 0.3.  The latter
  rounds the printed form of a float product: from 80 to 103 mentions the exact change is
  28.75, the float is 28.749999999999996, and the result is 28.7 instead of 28.8.
\<close>

theorem change_not_rounded_half_up:
  "claimed_percentage 401 400 = 3 / 10 \<and>
   (case fst (newsapi_company_result beta ''2025-09'' ''2025-08'' example_db) of
      Inr r \<Rightarrow> (current_mentions r, previous_mentions r, change_percentage r)
    | Inl e \<Rightarrow> (0, 0, 0)) = (401, 400, fl (2 / 10)) \<and>
   fl (2 / 10) < 1 / 4 \<and>
   (case fst (newsapi_mom_company beta ''2025-09'' ''2025-08'' example_db) of
      Inr r \<Rightarrow> (row_current_month_mentions r, row_previous_mentions r, row_monthly_change_percentage r)
    | Inl e \<Rightarrow> (0, 0, None)) = (401, 400, Some (1 / 4)) \<and>
   calculate_percentage_change 401 400 = Inr (3 / 10) \<and>
   claimed_percentage 103 80 = 288 / 10 \<and>
   calculate_percentage_change 103 80 = Inr (287 / 10)"
proof (intro conjI)
  show "claimed_percentage 401 400 = 3 / 10"
    by (simp add: claimed_percentage_def)
  show "(case fst (newsapi_company_result beta ''2025-09'' ''2025-08'' example_db) of
      Inr r \<Rightarrow> (current_mentions r, previous_mentions r, change_percentage r)
    | Inl e \<Rightarrow> (0, 0, 0)) = (401, 400, fl (2 / 10))"
    by (simp add: newsapi_result_beta newsapi_change_401 py_round_quarter [unfolded One_nat_def])
  show "fl (2 / 10) < 1 / 4"
    by code_simp
  show "(case fst (newsapi_mom_company beta ''2025-09'' ''2025-08'' example_db) of
      Inr r \<Rightarrow> (row_current_month_mentions r, row_previous_mentions r, row_monthly_change_percentage r)
    | Inl e \<Rightarrow> (0, 0, None)) = (401, 400, Some (1 / 4))"
    by (simp add: route_row_beta newsapi_change_401)
  show "calculate_percentage_change 401 400 = Inr (3 / 10)"
    by code_simp
  show "claimed_percentage 103 80 = 288 / 10"
    by (simp add: claimed_percentage_def)
  show "calculate_percentage_change 103 80 = Inr (287 / 10)"
    by code_simp
qed

section \<open>Heat index\<close>





subsection \<open>Claim C5\<close>


end
